theory Spec2Isabelle
  imports Main
begin

section \<open>Strings\<close>

text \<open>
  A JavaScript string is modelled as a \<^typ>\<open>string\<close>: one \<^typ>\<open>char\<close> per code unit, for the
  code units below 256. The white space of \<open>String.prototype.trim\<close> and of the regular
  expression class \<open>\s\<close> is the same set (WhiteSpace and LineTerminator); below 256 these are
  TAB, LF, VT, FF, CR, SPACE and NBSP. The class \<open>.\<close> is every code unit but a line terminator.
\<close>

abbreviation newline :: char where
  "newline \<equiv> CHR 0x0A"

abbreviation dollar :: char where
  "dollar \<equiv> CHR ''$''"

definition isWhiteSpace :: "char \<Rightarrow> bool" where
  "isWhiteSpace c \<longleftrightarrow>
     c = CHR 0x09 \<or> c = CHR 0x0A \<or> c = CHR 0x0B \<or> c = CHR 0x0C \<or> c = CHR 0x0D \<or>
     c = CHR 0x20 \<or> c = CHR 0xA0"

definition isLineTerminator :: "char \<Rightarrow> bool" where
  "isLineTerminator c \<longleftrightarrow> c = CHR 0x0A \<or> c = CHR 0x0D"

text \<open>\<open>s.trim()\<close>\<close>

definition trim :: "string \<Rightarrow> string" where
  "trim s = rev (dropWhile isWhiteSpace (rev (dropWhile isWhiteSpace s)))"

text \<open>
  \<open>s.replace(/\n{3,}/g, "\n")\<close>: scanning from the left, a position where three or more
  newlines start is a match; the greedy quantifier takes the whole run, which is replaced by one
  newline, and the scan goes on behind the run. Anywhere else the code unit is copied.
\<close>

function collapse_newlines :: "string \<Rightarrow> string" where
  "collapse_newlines [] = []"
| "collapse_newlines (c # cs) =
     (if c = newline \<and> 2 \<le> length (takeWhile (\<lambda>x. x = newline) cs)
      then newline # collapse_newlines (dropWhile (\<lambda>x. x = newline) cs)
      else c # collapse_newlines cs)"
  by pat_completeness auto
termination
  by (relation "measure length") (auto simp: less_Suc_eq_le length_dropWhile_le)

text \<open>\<open>xs.join(sep)\<close>\<close>

fun join :: "string \<Rightarrow> string list \<Rightarrow> string" where
  "join sep [] = []"
| "join sep [x] = x"
| "join sep (x # y # ys) = x @ sep @ join sep (y # ys)"

text \<open>\<open>s.startsWith(p)\<close>, \<open>s.split(",")[0]\<close> and \<open>s.toLocaleLowerCase()\<close> (in a locale
  without special casing rules; below 256 the letters with a lower-case form are A to Z and
  the Latin-1 capitals 0xC0 to 0xDE without the multiplication sign 0xD7).\<close>

definition startsWith :: "string \<Rightarrow> string \<Rightarrow> bool" where
  "startsWith s p \<longleftrightarrow> take (length p) s = p"

definition first_comma_segment :: "string \<Rightarrow> string" where
  "first_comma_segment s = takeWhile (\<lambda>c. c \<noteq> CHR '','') s"

definition lower_char :: "char \<Rightarrow> char" where
  "lower_char c =
     (let n = (of_char c :: nat)
      in if (65 \<le> n \<and> n \<le> 90) \<or> (192 \<le> n \<and> n \<le> 222 \<and> n \<noteq> 215)
         then char_of (n + 32) else c)"

definition toLocaleLowerCase :: "string \<Rightarrow> string" where
  "toLocaleLowerCase s = map lower_char s"

text \<open>The decimal digits of a number, as a template literal prints them.\<close>

fun show_nat :: "nat \<Rightarrow> string" where
  "show_nat n =
     (if n < 10 then [''0123456789'' ! n]
      else show_nat (n div 10) @ [''0123456789'' ! (n mod 10)])"

declare show_nat.simps [simp del]

section \<open>The two math patterns and global replacement\<close>

text \<open>
  \<open>BLOCK_MATH_REGEXP = /\$\$\s(.+?)\s\$\$/g\<close> and
  \<open>INLINE_MATH_REGEXP = /\s\$((?=\S).*?(?=\S))\$/g\<close>.
  A matcher takes the text from the position under test on and returns, when the pattern
  matches there, the length of the match and the text of group 1.

  Block math: two dollars, one white space, then the lazy group \<open>.+?\<close>: after each body of
  at least one code unit the rest of the pattern (a white space and two dollars) is tried,
  and only when it fails the body grows by one code unit that is not a line terminator.
\<close>

fun close_block :: "string \<Rightarrow> nat option" where
  "close_block (w # d1 # d2 # rest) =
     (if isWhiteSpace w \<and> d1 = dollar \<and> d2 = dollar then Some 0
      else if \<not> isLineTerminator w then map_option Suc (close_block (d1 # d2 # rest))
      else None)"
| "close_block _ = None"

definition match_block :: "string \<Rightarrow> (nat \<times> string) option" where
  "match_block s =
     (case s of
        d1 # d2 # w # b # rest \<Rightarrow>
          if d1 = dollar \<and> d2 = dollar \<and> isWhiteSpace w \<and> \<not> isLineTerminator b
          then map_option (\<lambda>k. (k + 7, b # take k rest)) (close_block rest)
          else None
      | _ \<Rightarrow> None)"

text \<open>
  Inline math: one white space, a dollar, a lookahead for a code unit that is no white space,
  the lazy group \<open>.*?\<close>, a second lookahead and a dollar. The second lookahead and the
  closing dollar test the same code unit, so the body ends at the first dollar.
\<close>

fun close_inline :: "string \<Rightarrow> nat option" where
  "close_inline [] = None"
| "close_inline (c # cs) =
     (if \<not> isWhiteSpace c \<and> c = dollar then Some 0
      else if \<not> isLineTerminator c then map_option Suc (close_inline cs)
      else None)"

definition match_inline :: "string \<Rightarrow> (nat \<times> string) option" where
  "match_inline s =
     (case s of
        w # d # c # rest \<Rightarrow>
          if isWhiteSpace w \<and> d = dollar \<and> \<not> isWhiteSpace c
          then map_option (\<lambda>k. (k + 3, take k (c # rest))) (close_inline (c # rest))
          else None
      | _ \<Rightarrow> None)"

text \<open>
  \<open>s.replace(re, f)\<close> for a global pattern: the leftmost match is replaced by what \<open>f\<close>
  returns for the matched text and group 1, and the scan goes on behind the match; where
  nothing matches the code unit is copied. (Both patterns match at least three code units.)
\<close>

function replace_all ::
  "(string \<Rightarrow> (nat \<times> string) option) \<Rightarrow> (string \<Rightarrow> string \<Rightarrow> string) \<Rightarrow> string \<Rightarrow> string" where
  "replace_all m f [] = []"
| "replace_all m f (c # cs) =
     (case m (c # cs) of
        Some (n, p1) \<Rightarrow>
          if n = 0 then c # replace_all m f cs
          else f (take n (c # cs)) p1 @ replace_all m f (drop n (c # cs))
      | None \<Rightarrow> c # replace_all m f cs)"
  by pat_completeness auto
termination
  by (relation "measure (\<lambda>(m, f, s). length s)") auto

section \<open>Data model\<close>

text \<open>A thrown JavaScript exception, with its message.\<close>

datatype error = Error string

text \<open>
  The options of the sanitizer. An entry of \<open>allowedAttributes\<close> is an attribute name or an
  object \<open>{name, values}\<close>; an entry of \<open>allowedClasses\<close> is a boolean or a list of class
  names and regular expressions. \<open>Attributes\<close> is the attribute object of one tag. A field
  that one of the two call sites leaves out is optional.
\<close>

datatype AllowedAttribute = Attr string | AttrValues string "string list"

datatype class_pattern = ClassName string | ClassRegExp string

datatype class_entry = AllClasses bool | ClassList "class_pattern list"

type_synonym Attributes = "string \<rightharpoonup> string"

type_synonym Transformer = "string \<Rightarrow> Attributes \<Rightarrow> string \<times> Attributes"

record IOptions =
  o_transformTags :: "(string \<rightharpoonup> Transformer) option"
  o_allowedTags :: "string list"
  o_allowedAttributes :: "string \<rightharpoonup> AllowedAttribute list"
  o_allowedClasses :: "(string \<rightharpoonup> class_entry) option"
  o_allowProtocolRelative :: "bool option"
  o_lowerCaseAttributeNames :: "bool option"

text \<open>
  \<open>class Renderer\<close>: its two public fields and the private slugger. The slugger is an object
  of the github-slugger package that only \<open>heading\<close> reaches, through \<open>slug\<close>; its state is
  modelled by what determines it, the values passed to \<open>slug\<close> since \<open>new GitHubSlugger()\<close>.
\<close>

record Renderer =
  r_allowMath :: bool
  r_baseUrl :: "string option"
  slugger :: "string list"

text \<open>\<open>interface RenderOptions\<close>; every field is optional.\<close>

record RenderOptions =
  baseUrl :: "string option"
  mediaBaseUrl :: "string option"
  inline :: "bool option"
  allowIframes :: "bool option"
  allowMath :: "bool option"
  disableHtmlSanitization :: "bool option"
  renderer :: "Renderer option"
  allowedClasses :: "(string \<rightharpoonup> class_entry) option"
  allowedTags :: "string list option"
  allowedAttributes :: "(string \<rightharpoonup> AllowedAttribute list) option"
  breaks :: "bool option"

text \<open>Truthiness of an optional boolean and of an optional string.\<close>

definition truthy :: "bool option \<Rightarrow> bool" where
  "truthy b \<longleftrightarrow> b = Some True"

definition truthy_string :: "string option \<Rightarrow> bool" where
  "truthy_string s \<longleftrightarrow> (case s of None \<Rightarrow> False | Some x \<Rightarrow> x \<noteq> [])"

text \<open>The object that \<open>getOpts\<close> returns, with the \<open>tokenizer\<close> that
  \<open>stripSplitBySections\<close> adds.\<close>

datatype tokenizer = StripTokenizer

record MarkedOptions =
  m_baseUrl :: "string option"
  m_breaks :: bool
  m_gfm :: bool
  m_mangle :: bool
  m_renderer :: Renderer
  m_async :: bool
  m_tokenizer :: "tokenizer option"

text \<open>
  A token of the parser: its \<open>type\<close> and the fields that \<open>stripTokens\<close> reads. \<open>tokens\<close> is
  \<open>None\<close> where the token has no such field; a table cell is given by its \<open>tokens\<close>.
\<close>

datatype token_type =
  Space | Code | Heading | Table | Hr | Blockquote | List | ListItem | Paragraph | Html
  | Text | Def | Escape | Link | ImageToken | Strong | Em | Codespan | Br | Del | Other string

datatype token =
  Token (tok_type: token_type) (tok_raw: string) (tok_text: string) (tok_lang: "string option")
    (tok_depth: nat) (tok_title: "string option") (tok_tokens: "token list option")
    (tok_header: "token list list") (tok_rows: "token list list list") (tok_items: "token list")

text \<open>\<open>interface MarkdownSections\<close>\<close>

record MarkdownSections =
  header :: string
  depth :: nat
  content :: string

section \<open>Collaborators\<close>

text \<open>
  The packages that the module imports are parameters of the model: the emoji substitution,
  the math renderer (which throws on a formula it cannot parse, as the handlers in \<open>mathify\<close>
  expect), the slugger (the slug it returns for a value after the values it has seen), the
  grammar table and highlighter, the entity encoder, the \<open>URL\<close> constructor (\<open>None\<close> where it
  throws), the parser and lexer of marked, the sanitizer with its default lists, and the
  class list \<open>KATEX_CLASSES\<close> of \<open>style.ts\<close>. The runtime is a parameter too, as far as
  \<open>mergeAttributes\<close> meets it: the names of the members that every object inherits from
  \<open>Object.prototype\<close> (functions such as \<open>constructor\<close>, none of them iterable).
\<close>

typedecl grammar

record collab =
  emojify :: "string \<Rightarrow> string"
  katex_renderToString :: "string \<Rightarrow> bool \<Rightarrow> error + string"
  github_slug :: "string list \<Rightarrow> string \<Rightarrow> string"
  prism_languages :: "string \<Rightarrow> grammar option"
  prism_highlight :: "string \<Rightarrow> grammar \<Rightarrow> string \<Rightarrow> string"
  he_encode :: "string \<Rightarrow> string"
  new_URL :: "string \<Rightarrow> string \<Rightarrow> string option"
  marked_parse :: "string \<Rightarrow> MarkedOptions \<Rightarrow> error + string"
  marked_parseInline :: "string \<Rightarrow> MarkedOptions \<Rightarrow> error + string"
  marked_lexer :: "string \<Rightarrow> MarkedOptions \<Rightarrow> token list"
  sanitizeHtml :: "string \<Rightarrow> IOptions \<Rightarrow> string"
  defaults_allowedTags :: "string list"
  defaults_allowedAttributes :: "string \<rightharpoonup> AllowedAttribute list"
  KATEX_CLASSES :: "string list"
  inherited_members :: "string list"

section \<open>The renderer\<close>

text \<open>\<open>constructor(options)\<close>: the fields are read from the options and the slugger is new.\<close>

definition new_Renderer :: "RenderOptions \<Rightarrow> Renderer" where
  "new_Renderer options =
     \<lparr>r_allowMath = (case allowMath options of None \<Rightarrow> False | Some b \<Rightarrow> b),
      r_baseUrl = baseUrl options,
      slugger = []\<rparr>"

text \<open>
  \<open>heading(text, level, raw)\<close>: the slug comes from the renderer's slugger, which the call
  changes; the function returns the markup and the renderer after the call.
\<close>

definition anchor_icon :: string where
  \<open>anchor_icon = ''<svg class="octicon octicon-link" viewBox="0 0 16 16" width="16" height="16" aria-hidden="true"><path fill-rule="evenodd" d="M7.775 3.275a.75.75 0 001.06 1.06l1.25-1.25a2 2 0 112.83 2.83l-2.5 2.5a2 2 0 01-2.83 0 .75.75 0 00-1.06 1.06 3.5 3.5 0 004.95 0l2.5-2.5a3.5 3.5 0 00-4.95-4.95l-1.25 1.25zm-4.69 9.64a2 2 0 010-2.83l2.5-2.5a2 2 0 012.83 0 .75.75 0 001.06-1.06 3.5 3.5 0 00-4.95 0l-2.5 2.5a3.5 3.5 0 004.95 4.95l1.25-1.25a.75.75 0 00-1.06-1.06l-1.25 1.25a2 2 0 01-2.83 0z"></path></svg>''\<close>

definition heading_id :: "collab \<Rightarrow> Renderer \<Rightarrow> string \<Rightarrow> string" where
  "heading_id C r raw = github_slug C (slugger r) raw"

definition heading :: "collab \<Rightarrow> Renderer \<Rightarrow> string \<Rightarrow> nat \<Rightarrow> string \<Rightarrow> string \<times> Renderer" where
  \<open>heading C r text level raw =
     (let slug = heading_id C r raw
      in (''<h'' @ show_nat level @ '' id="'' @ slug
            @ ''"><a class="anchor" aria-hidden="true" tabindex="-1" href="#'' @ slug @ ''">''
            @ anchor_icon @ ''</a>'' @ text @ ''</h'' @ show_nat level @ ''>'' @ [newline],
          r\<lparr>slugger := slugger r @ [raw]\<rparr>))\<close>

text \<open>\<open>image(src, title, alt)\<close>\<close>

definition image_html :: "string \<Rightarrow> string option \<Rightarrow> string \<Rightarrow> string" where
  \<open>image_html src title alt =
     ''<img src="'' @ src @ ''" alt="'' @ alt @ ''" title="''
       @ (case title of None \<Rightarrow> [] | Some t \<Rightarrow> t) @ ''" />''\<close>

text \<open>
  \<open>code(code, language)\<close>: \<open>katex.renderToString\<close> is called outside any handler, so what it
  throws leaves \<open>code\<close>. The grammar is looked up only for a language that is a non-empty string.
\<close>

definition normalize_language :: "string option \<Rightarrow> string option" where
  "normalize_language language = map_option (\<lambda>l. toLocaleLowerCase (first_comma_segment l)) language"

definition code :: "collab \<Rightarrow> Renderer \<Rightarrow> string \<Rightarrow> string option \<Rightarrow> error + string" where
  \<open>code C r src language0 =
     (let language = normalize_language language0
      in if language = Some ''math'' \<and> r_allowMath r then katex_renderToString C src True
         else
           (case (case language of
                    None \<Rightarrow> None
                  | Some l \<Rightarrow> if l \<noteq> [] then map_option (\<lambda>g. (g, l)) (prism_languages C l) else None) of
              None \<Rightarrow> Inr (''<pre><code class="notranslate">'' @ he_encode C src @ ''</code></pre>'')
            | Some (grammar, l) \<Rightarrow>
                Inr (''<div class="highlight highlight-source-'' @ l @ '' notranslate"><pre>''
                       @ prism_highlight C src grammar l @ ''</pre></div>'')))\<close>

text \<open>\<open>link(href, title, text)\<close>\<close>

definition link :: "collab \<Rightarrow> Renderer \<Rightarrow> string \<Rightarrow> string option \<Rightarrow> string \<Rightarrow> string" where
  \<open>link C r href0 title text =
     (let titleAttr = (if truthy_string title then '' title="'' @ the title @ ''"'' else [])
      in if startsWith href0 ''#'' then ''<a href="'' @ href0 @ ''"'' @ titleAttr @ ''>'' @ text @ ''</a>''
         else
           (let href =
                  (if truthy_string (r_baseUrl r)
                   then (case new_URL C href0 (the (r_baseUrl r)) of Some u \<Rightarrow> u | None \<Rightarrow> href0)
                   else href0)
            in ''<a href="'' @ href @ ''"'' @ titleAttr @ '' rel="noopener noreferrer">'' @ text @ ''</a>''))\<close>

section \<open>Rendering\<close>

text \<open>\<open>mathify(markdown)\<close>: a formula that the math renderer rejects is left as it is.\<close>

definition mathify :: "collab \<Rightarrow> string \<Rightarrow> string" where
  "mathify C markdown0 =
     (let markdown =
            replace_all match_block
              (\<lambda>match p1. case katex_renderToString C (trim p1) True of
                             Inr h \<Rightarrow> h | Inl e \<Rightarrow> match) markdown0
      in replace_all match_inline
           (\<lambda>match p1. case katex_renderToString C p1 False of
                          Inr h \<Rightarrow> '' '' @ h | Inl e \<Rightarrow> match) markdown)"

text \<open>\<open>getOpts(opts)\<close>: a renderer in the options is used as it is, with the slugger it has;
  only without one a renderer is made.\<close>

definition getOpts :: "RenderOptions \<Rightarrow> MarkedOptions" where
  "getOpts opts =
     \<lparr>m_baseUrl = baseUrl opts,
      m_breaks = (case breaks opts of None \<Rightarrow> False | Some b \<Rightarrow> b),
      m_gfm = True,
      m_mangle = False,
      m_renderer = (case renderer opts of Some r \<Rightarrow> r | None \<Rightarrow> new_Renderer opts),
      m_async = False,
      m_tokenizer = None\<rparr>"

text \<open>
  \<open>mergeAttributes(defaults, customs)\<close>. \<open>merged\<close> is a copy of \<open>defaults\<close>, an object
  literal; for each key \<open>tag\<close> of \<open>customs\<close> the loop reads \<open>merged[tag] || []\<close> and spreads it.
  For a key that \<open>defaults\<close> does not have and that names an inherited member, the value read
  is that member, and spreading it throws a \<open>TypeError\<close>. Otherwise the lists of \<open>customs\<close>
  are appended to those of \<open>defaults\<close>, key by key (\<open>merged_lists\<close>).
\<close>

definition merged_lists ::
  "(string \<rightharpoonup> AllowedAttribute list) \<Rightarrow> (string \<rightharpoonup> AllowedAttribute list)
     \<Rightarrow> (string \<rightharpoonup> AllowedAttribute list)" where
  "merged_lists defaults customs =
     (\<lambda>tag. case customs tag of
               None \<Rightarrow> defaults tag
             | Some cs \<Rightarrow> Some ((case defaults tag of None \<Rightarrow> [] | Some ds \<Rightarrow> ds) @ cs))"

definition mergeAttributes ::
  "collab \<Rightarrow> (string \<rightharpoonup> AllowedAttribute list) \<Rightarrow> (string \<rightharpoonup> AllowedAttribute list)
     \<Rightarrow> error + (string \<rightharpoonup> AllowedAttribute list)" where
  "mergeAttributes C defaults customs =
     (if list_ex (\<lambda>tag. customs tag \<noteq> None \<and> defaults tag = None) (inherited_members C)
      then Inl (Error ''TypeError: merged[tag] is not iterable'')
      else Inr (merged_lists defaults customs))"

text \<open>The lists that \<open>render\<close> builds before it calls the sanitizer.\<close>

definition math_tags :: "string list" where
  "math_tags =
     [''math'', ''maction'', ''annotation'', ''annotation-xml'', ''menclose'', ''merror'',
      ''mfenced'', ''mfrac'', ''mi'', ''mmultiscripts'', ''mn'', ''mo'', ''mover'', ''mpadded'',
      ''mphantom'', ''mprescripts'', ''mroot'', ''mrow'', ''ms'', ''semantics'', ''mspace'',
      ''msqrt'', ''mstyle'', ''msub'', ''msup'', ''msubsup'', ''mtable'', ''mtd'', ''mtext'',
      ''mtr'']"

definition defaultAllowedTags :: "collab \<Rightarrow> RenderOptions \<Rightarrow> string list" where
  "defaultAllowedTags C opts =
     defaults_allowedTags C
       @ [''img'', ''video'', ''svg'', ''path'', ''circle'', ''figure'', ''figcaption'', ''del'',
          ''details'', ''summary'', ''input'']
       @ (if truthy (allowIframes opts) then [''iframe''] else [])
       @ (if truthy (allowMath opts) then math_tags else [])"

definition transformMedia :: "collab \<Rightarrow> RenderOptions \<Rightarrow> Transformer" where
  "transformMedia C opts tagName attribs =
     (if truthy_string (mediaBaseUrl opts) \<and> truthy_string (attribs ''src'')
      then (case new_URL C (the (attribs ''src'')) (the (mediaBaseUrl opts)) of
              Some u \<Rightarrow> (tagName, attribs(''src'' \<mapsto> u))
            | None \<Rightarrow> (tagName, attribs(''src'' := None)))
      else (tagName, attribs))"

definition defaultAllowedClasses :: "collab \<Rightarrow> RenderOptions \<Rightarrow> (string \<rightharpoonup> class_entry)" where
  "defaultAllowedClasses C opts =
     map_of
       [(''div'', ClassList (map ClassName
           [''highlight'', ''highlight-source-*'', ''notranslate'', ''markdown-alert'',
            ''markdown-alert-*''])),
        (''span'', ClassList (map ClassName
           ([''token'', ''keyword'', ''operator'', ''number'', ''boolean'', ''function'',
             ''string'', ''comment'', ''class-name'', ''regex'', ''regex-delimiter'', ''tag'',
             ''attr-name'', ''punctuation'', ''script-punctuation'', ''script'', ''plain-text'',
             ''property'', ''prefix'', ''line'', ''deleted'', ''inserted'']
            @ (if truthy (allowMath opts) then KATEX_CLASSES C else [])))),
        (''a'', ClassList [ClassName ''anchor'']),
        (''p'', ClassList [ClassName ''markdown-alert-title'']),
        (''svg'', ClassList (map ClassName [''octicon'', ''octicon-alert'', ''octicon-link''])),
        (''h2'', ClassList [ClassName ''sr-only'']),
        (''section'', ClassList [ClassName ''footnotes''])]"

definition defaultAllowedAttributes ::
  "collab \<Rightarrow> RenderOptions \<Rightarrow> (string \<rightharpoonup> AllowedAttribute list)" where
  "defaultAllowedAttributes C opts =
     defaults_allowedAttributes C ++
     map_of
       [(''img'', map Attr [''src'', ''alt'', ''height'', ''width'', ''align'', ''title'']),
        (''video'', map Attr
           [''src'', ''alt'', ''height'', ''width'', ''autoplay'', ''muted'', ''loop'',
            ''playsinline'', ''poster'', ''controls'', ''title'']),
        (''a'', map Attr
           [''id'', ''aria-hidden'', ''href'', ''tabindex'', ''rel'', ''target'', ''title'',
            ''data-footnote-ref'', ''data-footnote-backref'', ''aria-label'',
            ''aria-describedby'']),
        (''svg'', map Attr [''viewBox'', ''width'', ''height'', ''aria-hidden'', ''background'']),
        (''path'', map Attr [''fill-rule'', ''d'']),
        (''circle'', map Attr [''cx'', ''cy'', ''r'', ''stroke'', ''stroke-width'', ''fill'', ''alpha'']),
        (''span'', if truthy (allowMath opts) then map Attr [''aria-hidden'', ''style''] else []),
        (''h1'', [Attr ''id'']),
        (''h2'', [Attr ''id'']),
        (''h3'', [Attr ''id'']),
        (''h4'', [Attr ''id'']),
        (''h5'', [Attr ''id'']),
        (''h6'', [Attr ''id'']),
        (''li'', [Attr ''id'']),
        (''td'', map Attr [''colspan'', ''rowspan'', ''align'', ''width'']),
        (''iframe'', map Attr [''src'', ''width'', ''height'']),
        (''math'', [Attr ''xmlns'']),
        (''annotation'', [Attr ''encoding'']),
        (''details'', [Attr ''open'']),
        (''section'', [Attr ''data-footnotes'']),
        (''input'', [Attr ''checked'', Attr ''disabled'', AttrValues ''type'' [''checkbox'']])]"

text \<open>
  The options object of the call \<open>sanitizeHtml(html, {...})\<close> that ends \<open>render\<close>. It exists
  only when \<open>mergeAttributes\<close> returns; its \<open>allowedAttributes\<close> is then what
  \<open>mergeAttributes\<close> returns.
\<close>

definition sanitize_options :: "collab \<Rightarrow> RenderOptions \<Rightarrow> IOptions" where
  "sanitize_options C opts =
     \<lparr>o_transformTags =
        Some [''img'' \<mapsto> transformMedia C opts, ''video'' \<mapsto> transformMedia C opts],
      o_allowedTags =
        defaultAllowedTags C opts @ (case allowedTags opts of None \<Rightarrow> [] | Some ts \<Rightarrow> ts),
      o_allowedAttributes =
        merged_lists (defaultAllowedAttributes C opts)
          (case allowedAttributes opts of None \<Rightarrow> Map.empty | Some m \<Rightarrow> m),
      o_allowedClasses =
        Some (defaultAllowedClasses C opts
                ++ (case allowedClasses opts of None \<Rightarrow> Map.empty | Some m \<Rightarrow> m)),
      o_allowProtocolRelative = Some False,
      o_lowerCaseAttributeNames = Some False\<rparr>"

text \<open>
  \<open>render(markdown, opts)\<close>. The first statement fills \<open>mediaBaseUrl\<close> in from \<open>baseUrl\<close>; what
  a renderer callback throws while the parser runs leaves \<open>render\<close>, and so does what
  \<open>mergeAttributes\<close> throws while the options of the sanitizer are built.
\<close>

definition fill_mediaBaseUrl :: "RenderOptions \<Rightarrow> RenderOptions" where
  "fill_mediaBaseUrl opts =
     opts\<lparr>mediaBaseUrl := (case mediaBaseUrl opts of None \<Rightarrow> baseUrl opts | Some b \<Rightarrow> Some b)\<rparr>"

definition render :: "collab \<Rightarrow> string \<Rightarrow> RenderOptions \<Rightarrow> error + string" where
  "render C markdown0 opts0 =
     (let opts = fill_mediaBaseUrl opts0;
          markdown1 = emojify C markdown0;
          markdown = (if truthy (allowMath opts) then mathify C markdown1 else markdown1);
          marked_opts = getOpts opts
      in case (if truthy (inline opts) then marked_parseInline C markdown marked_opts
               else marked_parse C markdown marked_opts) of
           Inl e \<Rightarrow> Inl e
         | Inr html \<Rightarrow>
             if truthy (disableHtmlSanitization opts) then Inr html
             else
               (case mergeAttributes C (defaultAllowedAttributes C opts)
                       (case allowedAttributes opts of None \<Rightarrow> Map.empty | Some m \<Rightarrow> m) of
                  Inl e \<Rightarrow> Inl e
                | Inr attrs \<Rightarrow>
                    Inr (sanitizeHtml C html
                           ((sanitize_options C opts)\<lparr>o_allowedAttributes := attrs\<rparr>))))"

section \<open>Plain text\<close>

text \<open>
  What the heading branch of \<open>stripTokens\<close> does to the section at \<open>index\<close>, and
  \<open>sections[index][header ? "header" : "content"] += s\<close>. The array is never empty when
  \<open>stripTokens\<close> runs (it starts with the root section and only grows), so \<open>index\<close> is always
  in range there; outside the range the model leaves the array as it is.
\<close>

definition normalize_field :: "string \<Rightarrow> string" where
  "normalize_field s = collapse_newlines (trim s)"

definition close_section :: "nat \<Rightarrow> MarkdownSections list \<Rightarrow> MarkdownSections list" where
  "close_section index sections =
     (if index < length sections
      then sections[index := (sections ! index)
             \<lparr>header := normalize_field (header (sections ! index)),
              content := normalize_field (content (sections ! index))\<rparr>]
      else sections)"

definition append_field ::
  "bool \<Rightarrow> nat \<Rightarrow> string \<Rightarrow> MarkdownSections list \<Rightarrow> MarkdownSections list" where
  "append_field hdr index s sections =
     (if index < length sections
      then sections[index :=
             (if hdr then (sections ! index)\<lparr>header := header (sections ! index) @ s\<rparr>
              else (sections ! index)\<lparr>content := content (sections ! index) @ s\<rparr>)]
      else sections)"

text \<open>\<open>sanitizeHtml(token.text, {allowedTags: [], allowedAttributes: {}}).trim() + "\n\n"\<close>\<close>

definition strip_html :: "collab \<Rightarrow> string \<Rightarrow> string" where
  "strip_html C s =
     trim (sanitizeHtml C s
       \<lparr>o_transformTags = None, o_allowedTags = [], o_allowedAttributes = Map.empty,
        o_allowedClasses = None, o_allowProtocolRelative = None,
        o_lowerCaseAttributeNames = None\<rparr>) @ [newline, newline]"

text \<open>
  \<open>stripTokens(tokens, sections, header)\<close>. The array \<open>sections\<close> is shared by all calls and
  is threaded through; \<open>index\<close> is local to one call: it is set from the length of the array
  when the call starts and moves only at a heading of the call's own token list, whatever the
  nested calls push. \<open>stripLoop\<close> is the \<open>for\<close> loop, \<open>stripCells\<close> and \<open>stripRows\<close> are the
  loops of the table branch.
\<close>

fun stripTokens ::
  "collab \<Rightarrow> token list \<Rightarrow> MarkdownSections list \<Rightarrow> bool \<Rightarrow> MarkdownSections list"
and stripLoop ::
  "collab \<Rightarrow> token list \<Rightarrow> bool \<Rightarrow> nat \<Rightarrow> MarkdownSections list \<Rightarrow> MarkdownSections list"
and stripCells ::
  "collab \<Rightarrow> token list list \<Rightarrow> bool \<Rightarrow> nat \<Rightarrow> MarkdownSections list \<Rightarrow> MarkdownSections list"
and stripRows ::
  "collab \<Rightarrow> token list list list \<Rightarrow> bool \<Rightarrow> nat \<Rightarrow> MarkdownSections list
     \<Rightarrow> MarkdownSections list"
where
  "stripTokens C toks sections hdr = stripLoop C toks hdr (length sections - 1) sections"
| "stripLoop C [] hdr index sections = sections"
| "stripLoop C (Token ty raw txt lang d title tks hcells rws its # toks) hdr index0 sections0 =
     (let index = (if ty = Heading then index0 + 1 else index0);
          sections1 =
            (if ty = Heading
             then close_section index0 sections0 @ [\<lparr>header = [], depth = d, content = []\<rparr>]
             else sections0);
          sections2 =
            (case tks of
               Some ts \<Rightarrow> stripTokens C ts sections1 (ty = Heading)
             | None \<Rightarrow> sections1);
          sections3 =
            (case ty of
               Space \<Rightarrow> append_field hdr index raw sections2
             | Code \<Rightarrow>
                 if lang \<noteq> Some ''math'' then append_field hdr index txt sections2
                 else sections2
             | Table \<Rightarrow>
                 stripRows C rws hdr index
                   (append_field hdr index [newline] (stripCells C hcells hdr index sections2))
             | List \<Rightarrow> stripTokens C its sections2 hdr
             | ListItem \<Rightarrow> append_field hdr index [newline] sections2
             | Html \<Rightarrow> append_field hdr index (strip_html C txt) sections2
             | Text \<Rightarrow> if tks = None then append_field hdr index raw sections2 else sections2
             | ImageToken \<Rightarrow>
                 if truthy_string title then append_field hdr index (the title) sections2
                 else append_field hdr index txt sections2
             | Codespan \<Rightarrow> append_field hdr index txt sections2
             | _ \<Rightarrow> sections2)
      in stripLoop C toks hdr index sections3)"
| "stripCells C [] hdr index sections = sections"
| "stripCells C (cell # cells) hdr index sections =
     stripCells C cells hdr index
       (append_field hdr index '' '' (stripTokens C cell sections hdr))"
| "stripRows C [] hdr index sections = sections"
| "stripRows C (row # rws) hdr index sections =
     stripRows C rws hdr index
       (append_field hdr index [newline] (stripCells C row hdr index sections))"

text \<open>
  \<open>stripSplitBySections(markdown, opts)\<close>: both math patterns are replaced by the empty
  string, whatever the options are, before the lexer sees the text.
\<close>

definition strip_math :: "string \<Rightarrow> string" where
  "strip_math s =
     replace_all match_inline (\<lambda>match p1. []) (replace_all match_block (\<lambda>match p1. []) s)"

definition root_section :: MarkdownSections where
  "root_section = \<lparr>header = [], depth = 0, content = []\<rparr>"

definition stripSplitBySections ::
  "collab \<Rightarrow> string \<Rightarrow> RenderOptions \<Rightarrow> MarkdownSections list" where
  "stripSplitBySections C markdown0 opts =
     (let markdown = strip_math (emojify C markdown0);
          toks = marked_lexer C markdown ((getOpts opts)\<lparr>m_tokenizer := Some StripTokenizer\<rparr>)
      in stripTokens C toks [root_section] False)"

text \<open>\<open>strip(markdown, opts)\<close>\<close>

definition strip :: "collab \<Rightarrow> string \<Rightarrow> RenderOptions \<Rightarrow> string" where
  "strip C markdown opts =
     collapse_newlines
       (trim (join [newline, newline]
          (map (\<lambda>section. header section @ [newline, newline] @ content section)
             (stripSplitBySections C markdown opts))))
     @ [newline]"

section \<open>Notions used to state the properties\<close>

text \<open>
  The names of the tags that open or close in an HTML text, in lower case: after each \<open><\<close>,
  and a \<open>/\<close> if there is one, the run of letters, digits and hyphens, when it starts with a
  letter.
\<close>

definition is_letter :: "char \<Rightarrow> bool" where
  "is_letter c \<longleftrightarrow>
     c \<in> set ''abcdefghijklmnopqrstuvwxyzABCDEFGHIJKLMNOPQRSTUVWXYZ''"

definition is_name_char :: "char \<Rightarrow> bool" where
  "is_name_char c \<longleftrightarrow> is_letter c \<or> c \<in> set ''0123456789-''"

definition tag_name_at :: "string \<Rightarrow> string list" where
  "tag_name_at s =
     (let name = takeWhile is_name_char (if startsWith s ''/'' then tl s else s)
      in if name \<noteq> [] \<and> is_letter (hd name) then [toLocaleLowerCase name] else [])"

fun tag_names :: "string \<Rightarrow> string list" where
  "tag_names [] = []"
| "tag_names (c # cs) = (if c = CHR ''<'' then tag_name_at cs @ tag_names cs else tag_names cs)"



text \<open>
  An element written as \<open>link\<close> writes it: the tag name, each attribute as
  \<open> name="value"\<close>, and the content. \<open>link_attributes\<close> is the attribute list that the
  specification gives a link.
\<close>

definition element :: "string \<Rightarrow> (string \<times> string) list \<Rightarrow> string \<Rightarrow> string" where
  \<open>element name attrs inner =
     ''<'' @ name @ concat (map (\<lambda>(k, v). '' '' @ k @ ''="'' @ v @ ''"'') attrs) @ ''>''
       @ inner @ ''</'' @ name @ ''>''\<close>

definition resolved_href :: "collab \<Rightarrow> string option \<Rightarrow> string \<Rightarrow> string" where
  "resolved_href C base href =
     (case base of
        None \<Rightarrow> href
      | Some b \<Rightarrow> if b = [] then href else (case new_URL C href b of None \<Rightarrow> href | Some u \<Rightarrow> u))"

definition link_attributes ::
  "collab \<Rightarrow> string option \<Rightarrow> string \<Rightarrow> string option \<Rightarrow> (string \<times> string) list" where
  "link_attributes C base href title =
     (if startsWith href ''#'' then [(''href'', href)] else [(''href'', resolved_href C base href)])
     @ (case title of None \<Rightarrow> [] | Some t \<Rightarrow> if t = [] then [] else [(''title'', t)])
     @ (if startsWith href ''#'' then [] else [(''rel'', ''noopener noreferrer'')])"

text \<open>
  The parser calls \<open>heading\<close> once for each heading of the document, in document order, on the
  renderer of its options. \<open>headings\<close> is that sequence of calls, \<open>heading_ids\<close> the ids that
  the headings get, and \<open>slugs_of\<close> what a slugger that has seen \<open>seen\<close> returns for the
  values \<open>raws\<close>, one after the other.
\<close>

fun headings :: "collab \<Rightarrow> Renderer \<Rightarrow> (string \<times> nat \<times> string) list \<Rightarrow> string list \<times> Renderer" where
  "headings C r [] = ([], r)"
| "headings C r ((text, level, raw) # hs) =
     (let (html, r1) = heading C r text level raw;
          (htmls, r2) = headings C r1 hs
      in (html # htmls, r2))"

fun heading_ids :: "collab \<Rightarrow> Renderer \<Rightarrow> (string \<times> nat \<times> string) list \<Rightarrow> string list" where
  "heading_ids C r [] = []"
| "heading_ids C r ((text, level, raw) # hs) =
     heading_id C r raw # heading_ids C (snd (heading C r text level raw)) hs"

fun slugs_of :: "collab \<Rightarrow> string list \<Rightarrow> string list \<Rightarrow> string list" where
  "slugs_of C seen [] = []"
| "slugs_of C seen (raw # raws) = github_slug C seen raw # slugs_of C (seen @ [raw]) raws"







text \<open>
  The depths of the heading tokens of a token list, in the order in which \<open>stripTokens\<close>
  meets them: a token first, then its \<open>tokens\<close>, then the cells of a table or the items of
  a list, then the tokens that follow.
\<close>

fun heading_depths :: "token list \<Rightarrow> nat list"
and cell_depths :: "token list list \<Rightarrow> nat list"
and row_depths :: "token list list list \<Rightarrow> nat list"
where
  "heading_depths [] = []"
| "heading_depths (Token ty raw txt lang d title tks hcells rws its # toks) =
     (if ty = Heading then [d] else [])
     @ (case tks of Some ts \<Rightarrow> heading_depths ts | None \<Rightarrow> [])
     @ (if ty = Table then cell_depths hcells @ row_depths rws
        else if ty = List then heading_depths its else [])
     @ heading_depths toks"
| "cell_depths [] = []"
| "cell_depths (cell # cells) = heading_depths cell @ cell_depths cells"
| "row_depths [] = []"
| "row_depths (row # rws) = cell_depths row @ row_depths rws"

text \<open>A text without a run of three newlines, as a function.\<close>

fun no_run3 :: "string \<Rightarrow> bool" where
  "no_run3 [] = True"
| "no_run3 (c # cs) =
     ((c \<noteq> newline \<or> length (takeWhile (\<lambda>x. x = newline) cs) < 2) \<and> no_run3 cs)"

section \<open>Collaborators for the examples\<close>

text \<open>
  The examples run the functions with stand-ins for the packages, each defined only as far
  as the examples go: no emoji names; a math renderer that rejects the formula
  of a backslash and \<open>invalidcmd\<close>; a slugger that lower-cases, writes a hyphen for a space and numbers a
  repeated value; no grammar; an encoder for the markup characters; a \<open>URL\<close> constructor
  that rejects an empty base and the text \<open>http://[\<close>, keeps an absolute \<open>https\<close> URL,
  gives a protocol-relative URL the scheme \<open>https\<close> (the scheme of the bases of the
  examples) and appends anything else to the base; a parser that returns a text without Markdown syntax
  as it is (inline) or as one paragraph; the token lists of the lexer for the texts of the
  examples (a text of two headings, a code block, and one paragraph for any other text); and a filter that returns its input when every tag of it is in the list, and the
  empty text otherwise.
\<close>

definition no_options :: RenderOptions where
  "no_options =
     \<lparr>baseUrl = None, mediaBaseUrl = None, inline = None, allowIframes = None,
      allowMath = None, disableHtmlSanitization = None, renderer = None,
      allowedClasses = None, allowedTags = None, allowedAttributes = None, breaks = None\<rparr>"

definition sample_katex :: "string \<Rightarrow> bool \<Rightarrow> error + string" where
  \<open>sample_katex src displayMode =
     (if src = CHR 0x5C # ''invalidcmd''
      then Inl (Error ''KaTeX parse error: Undefined control sequence'')
      else Inr (''<span class="katex">'' @ src @ ''</span>''))\<close>

definition sample_slug :: "string list \<Rightarrow> string \<Rightarrow> string" where
  "sample_slug seen v =
     (let base = (\<lambda>x. map (\<lambda>c. if c = CHR '' '' then CHR ''-'' else c) (toLocaleLowerCase x));
          n = length (filter (\<lambda>x. base x = base v) seen)
      in if n = 0 then base v else base v @ ''-'' @ show_nat n)"

definition sample_encode :: "string \<Rightarrow> string" where
  \<open>sample_encode s =
     concat (map (\<lambda>c. if c = CHR ''<'' then ''&#x3C;'' else if c = CHR ''>'' then ''&#x3E;''
                      else if c = CHR ''&'' then ''&#x26;'' else if c = CHR 0x22 then ''&#x22;''
                      else [c]) s)\<close>

definition sample_URL :: "string \<Rightarrow> string \<Rightarrow> string option" where
  "sample_URL url base =
     (if base = [] \<or> url = ''http://['' then None
      else if startsWith url ''https://'' then Some url
      else if startsWith url ''//'' then Some (''https:'' @ url)
      else Some (base @ url))"

definition text_token :: "string \<Rightarrow> token" where
  "text_token s = Token Text s s None 0 None None [] [] []"

definition paragraph_token :: "string \<Rightarrow> token" where
  "paragraph_token s = Token Paragraph s s None 0 None (Some [text_token s]) [] [] []"

definition heading_token :: "nat \<Rightarrow> string \<Rightarrow> string \<Rightarrow> token" where
  "heading_token d r s = Token Heading r s None d None (Some [text_token s]) [] [] []"

definition space_token :: "string \<Rightarrow> token" where
  "space_token r = Token Space r [] None 0 None None [] [] []"

definition code_token :: "string \<Rightarrow> string \<Rightarrow> string \<Rightarrow> token" where
  "code_token r l s = Token Code r s (Some l) 0 None None [] [] []"

definition sample_lexer :: "string \<Rightarrow> MarkedOptions \<Rightarrow> token list" where
  "sample_lexer s opts =
     (if s = ''# A'' @ [newline, newline] @ ''text1'' @ [newline, newline] @ ''## B''
               @ [newline, newline] @ ''text2''
      then [heading_token 1 (''# A'' @ [newline, newline]) ''A'', paragraph_token ''text1'',
            space_token [newline, newline],
            heading_token 2 (''## B'' @ [newline, newline]) ''B'', paragraph_token ''text2'']
      else if s = ''```'' @ [newline] @ ''a'' @ [newline, newline, newline, newline] @ ''b''
                    @ [newline] @ ''```''
      then [code_token s [] (''a'' @ [newline, newline, newline, newline] @ ''b'')]
      else if s = [] then []
      else [paragraph_token s])"

definition sample_sanitizeHtml :: "string \<Rightarrow> IOptions \<Rightarrow> string" where
  "sample_sanitizeHtml html opts =
     (if set (tag_names html) \<subseteq> set (o_allowedTags opts) then html else [])"



definition sample_collab :: collab where
  "sample_collab =
     \<lparr>emojify = (\<lambda>s. s),
      katex_renderToString = sample_katex,
      github_slug = sample_slug,
      prism_languages = (\<lambda>l. None),
      prism_highlight = (\<lambda>src g l. src),
      he_encode = sample_encode,
      new_URL = sample_URL,
      marked_parse = (\<lambda>s opts. Inr (''<p>'' @ s @ ''</p>'' @ [newline])),
      marked_parseInline = (\<lambda>s opts. Inr s),
      marked_lexer = sample_lexer,
      sanitizeHtml = sample_sanitizeHtml,
      defaults_allowedTags = [''p'', ''a'', ''h1'', ''h2'', ''pre'', ''code'', ''div'', ''span''],
      defaults_allowedAttributes = [''a'' \<mapsto> map Attr [''href'', ''name'', ''target'']],
      KATEX_CLASSES = [''katex''],
      inherited_members =
        [''constructor'', ''hasOwnProperty'', ''isPrototypeOf'', ''propertyIsEnumerable'',
         ''toLocaleString'', ''toString'', ''valueOf'', ''__defineGetter__'',
         ''__defineSetter__'', ''__lookupGetter__'', ''__lookupSetter__'']\<rparr>"

section \<open>Properties of the renderer\<close>

text \<open>
  C6. \<open>link\<close> writes an \<open>a\<close> element whose attributes are those of \<open>link_attributes\<close>:
  no \<open>rel\<close> when \<open>href\<close> starts with \<open>#\<close> and \<open>rel="noopener noreferrer"\<close> for every other
  \<open>href\<close>; the \<open>href\<close> as given for an anchor, and otherwise resolved against the base URL of
  the renderer when one is set, the original \<open>href\<close> being kept when the resolution fails; a
  \<open>title\<close> exactly when the title is a non-empty string.
\<close>

theorem link_rel_href_title:
  "link C r href title text = element ''a'' (link_attributes C (r_baseUrl r) href title) text
   \<and> map_of (link_attributes C (r_baseUrl r) href title) ''rel''
       = (if startsWith href ''#'' then None else Some ''noopener noreferrer'')
   \<and> map_of (link_attributes C (r_baseUrl r) href title) ''href''
       = Some (if startsWith href ''#'' then href
               else case r_baseUrl r of
                      None \<Rightarrow> href
                    | Some b \<Rightarrow> if b = [] then href
                              else (case new_URL C href b of None \<Rightarrow> href | Some u \<Rightarrow> u))
   \<and> map_of (link_attributes C (r_baseUrl r) href title) ''title''
       = (case title of None \<Rightarrow> None | Some t \<Rightarrow> if t = [] then None else Some t)"
  by (auto simp: link_def element_def link_attributes_def resolved_href_def truthy_string_def
      Let_def split: option.splits)

theorem link_rel_href_title_witness:
  \<open>link sample_collab (new_Renderer (no_options\<lparr>baseUrl := Some ''https://host/''\<rparr>))
       ''path'' (Some ''T'') ''x''
     = ''<a href="https://host/path" title="T" rel="noopener noreferrer">x</a>''
   \<and> link sample_collab (new_Renderer (no_options\<lparr>baseUrl := Some ''https://host/''\<rparr>))
       ''http://['' None ''x''
     = ''<a href="http://[" rel="noopener noreferrer">x</a>''
   \<and> link sample_collab (new_Renderer (no_options\<lparr>baseUrl := Some ''https://host/''\<rparr>))
       ''#section'' (Some []) ''x''
     = ''<a href="#section">x</a>''\<close>
  using link_rel_href_title
      [of sample_collab "new_Renderer (no_options\<lparr>baseUrl := Some ''https://host/''\<rparr>)"
        "''path''" "Some ''T''" "''x''"]
    link_rel_href_title
      [of sample_collab "new_Renderer (no_options\<lparr>baseUrl := Some ''https://host/''\<rparr>)"
        "''http://[''" None "''x''"]
    link_rel_href_title
      [of sample_collab "new_Renderer (no_options\<lparr>baseUrl := Some ''https://host/''\<rparr>)"
        "''#section''" "Some []" "''x''"]
  by (simp add: element_def link_attributes_def resolved_href_def startsWith_def
      sample_collab_def sample_URL_def new_Renderer_def no_options_def)

text \<open>
  The parts of C5 that hold: the language is cut at the first comma and lower-cased; with the
  language \<open>math\<close> and math allowed the result is what the math renderer returns in display
  mode; on every other path \<open>code\<close> returns markup, which is the escaped block with the class
  \<open>notranslate\<close> when no grammar has the language's name.
\<close>

lemma code_language_normalized:
  "normalize_language (Some l) = Some (toLocaleLowerCase (takeWhile (\<lambda>c. c \<noteq> CHR '','') l))"
  by (simp add: normalize_language_def first_comma_segment_def)

lemma code_math_delegates:
  "normalize_language language = Some ''math'' \<Longrightarrow> r_allowMath r \<Longrightarrow>
     code C r src language = katex_renderToString C src True"
  by (simp add: code_def)

lemma code_plain_block:
  assumes "\<not> (normalize_language language = Some ''math'' \<and> r_allowMath r)"
    and "\<And>l. normalize_language language = Some l \<Longrightarrow> l \<noteq> [] \<Longrightarrow> prism_languages C l = None"
  shows \<open>code C r src language
           = Inr (''<pre><code class="notranslate">'' @ he_encode C src @ ''</code></pre>'')\<close>
  using assms by (auto simp: code_def Let_def split: option.splits)

lemma code_total_outside_math:
  "\<not> (normalize_language language = Some ''math'' \<and> r_allowMath r) \<Longrightarrow>
     \<exists>html. code C r src language = Inr html"
  by (auto simp: code_def Let_def split: option.splits)

text \<open>
  C5 says that \<open>code\<close> never throws. It does: with the language \<open>math\<close> and math allowed, the
  math renderer is called outside any handler, and when it rejects the formula \<open>code\<close> throws
  what the renderer throws.
\<close>

theorem code_math_error_escapes:
  assumes "normalize_language language = Some ''math''" and "r_allowMath r"
    and "katex_renderToString C src True = Inl e"
  shows "code C r src language = Inl e"
  using assms by (simp add: code_def)

theorem code_math_error_escapes_witness:
  "normalize_language (Some ''Math, x'') = Some ''math''
   \<and> r_allowMath (new_Renderer (no_options\<lparr>allowMath := Some True\<rparr>))
   \<and> katex_renderToString sample_collab (CHR 0x5C # ''invalidcmd'') True
       = Inl (Error ''KaTeX parse error: Undefined control sequence'')
   \<and> code sample_collab (new_Renderer (no_options\<lparr>allowMath := Some True\<rparr>))
        (CHR 0x5C # ''invalidcmd'') (Some ''Math, x'')
       = Inl (Error ''KaTeX parse error: Undefined control sequence'')"
proof -
  have l: "normalize_language (Some ''Math, x'') = Some ''math''"
    by code_simp
  have m: "r_allowMath (new_Renderer (no_options\<lparr>allowMath := Some True\<rparr>))"
    by (simp add: new_Renderer_def no_options_def)
  have k: "katex_renderToString sample_collab (CHR 0x5C # ''invalidcmd'') True
             = Inl (Error ''KaTeX parse error: Undefined control sequence'')"
    by (simp add: sample_collab_def sample_katex_def)
  from code_math_error_escapes [OF l m k] l m k show ?thesis by blast
qed

text \<open>
  The sequence of \<open>heading\<close> calls on one renderer gives the headings the slugs that its
  slugger returns, one after the other, and adds the raw texts to what the slugger has seen.
\<close>

lemma heading_ids_slugs:
  "heading_ids C r hs = slugs_of C (slugger r) (map (\<lambda>(text, level, raw). raw) hs)"
  by (induction hs arbitrary: r) (auto simp: heading_def heading_id_def Let_def)

lemma headings_slugger:
  "slugger (snd (headings C r hs)) = slugger r @ map (\<lambda>(text, level, raw). raw) hs"
  by (induction hs arbitrary: r) (auto simp: heading_def Let_def case_prod_beta)

text \<open>
  C4, as the code has it. When the options hold no renderer, \<open>getOpts\<close> makes one, so the
  slug registry of the call starts empty, and the headings of the document get the slugs
  that a new slugger returns for their raw texts in document order; these ids differ from
  each other as the slugs that the slugger returns do (a repeated text gets a numeric
  suffix from it).
\<close>

theorem fresh_renderer_unique_ids:
  assumes "renderer opts = None"
    and "distinct (slugs_of C [] (map (\<lambda>(text, level, raw). raw) hs))"
  shows "slugger (m_renderer (getOpts opts)) = []
         \<and> heading_ids C (m_renderer (getOpts opts)) hs
             = slugs_of C [] (map (\<lambda>(text, level, raw). raw) hs)
         \<and> distinct (heading_ids C (m_renderer (getOpts opts)) hs)"
proof -
  have "slugger (m_renderer (getOpts opts)) = []"
    using assms(1) by (simp add: getOpts_def new_Renderer_def)
  then show ?thesis using assms(2) by (simp add: heading_ids_slugs)
qed

theorem fresh_renderer_unique_ids_witness:
  "renderer no_options = None
   \<and> distinct (slugs_of sample_collab []
        (map (\<lambda>(text, level, raw). raw) [(''Foo'', 1, ''Foo''), (''Foo'', 2, ''Foo'')]))
   \<and> heading_ids sample_collab (m_renderer (getOpts no_options))
        [(''Foo'', 1, ''Foo''), (''Foo'', 2, ''Foo'')] = [''foo'', ''foo-1'']"
proof -
  have h1: "renderer no_options = None" by (simp add: no_options_def)
  have s: "slugs_of sample_collab []
        (map (\<lambda>(text, level, raw). raw) [(''Foo'', 1::nat, ''Foo''), (''Foo'', 2, ''Foo'')])
        = [''foo'', ''foo-1'']"
    by code_simp
  have h2: "distinct (slugs_of sample_collab []
        (map (\<lambda>(text, level, raw). raw) [(''Foo'', 1::nat, ''Foo''), (''Foo'', 2, ''Foo'')]))"
    unfolding s by simp
  from fresh_renderer_unique_ids [OF h1 h2] h1 h2 s show ?thesis by simp
qed

text \<open>
  C4 as stated fails for a renderer that the caller passes in the options: \<open>getOpts\<close> uses
  it with the slugger it has. After one document with the heading \<open>Foo\<close> the registry of
  that renderer holds \<open>Foo\<close>, and the same document rendered again with it gets the id
  \<open>foo-1\<close> where the first call gave \<open>foo\<close>.
\<close>

theorem reused_renderer_carries_slugs:
  "heading_ids sample_collab (m_renderer (getOpts no_options)) [(''Foo'', 1, ''Foo'')] = [''foo'']
   \<and> slugger (m_renderer (getOpts (no_options
        \<lparr>renderer := Some (snd (headings sample_collab (new_Renderer no_options)
                                  [(''Foo'', 1, ''Foo'')]))\<rparr>))) = [''Foo'']
   \<and> heading_ids sample_collab (m_renderer (getOpts (no_options
        \<lparr>renderer := Some (snd (headings sample_collab (new_Renderer no_options)
                                  [(''Foo'', 1, ''Foo'')]))\<rparr>))) [(''Foo'', 1, ''Foo'')]
       = [''foo-1'']"
  by code_simp

section \<open>Properties of \<open>render\<close>\<close>

text \<open>
  With sanitization on, what \<open>render\<close> returns is what the sanitizer returns for the options
  of \<open>sanitize_options\<close>; with sanitization off it is what the parser returns.
\<close>

lemma render_sanitized:
  assumes "\<not> truthy (disableHtmlSanitization opts)" and "render C markdown opts = Inr out"
  shows "\<exists>html. out = sanitizeHtml C html (sanitize_options C (fill_mediaBaseUrl opts))"
proof -
  have d: "disableHtmlSanitization (fill_mediaBaseUrl opts) = disableHtmlSanitization opts"
    by (simp add: fill_mediaBaseUrl_def)
  show ?thesis
    using assms unfolding render_def Let_def d
    by (auto simp: mergeAttributes_def sanitize_options_def split: sum.splits if_splits)
qed

lemma render_unsanitized:
  assumes "truthy (disableHtmlSanitization opts)"
  shows "render C markdown opts
           = (if truthy (inline opts)
              then marked_parseInline C
                     (if truthy (allowMath opts) then mathify C (emojify C markdown)
                      else emojify C markdown) (getOpts (fill_mediaBaseUrl opts))
              else marked_parse C
                     (if truthy (allowMath opts) then mathify C (emojify C markdown)
                      else emojify C markdown) (getOpts (fill_mediaBaseUrl opts)))"
  using assms
  by (auto simp: render_def Let_def fill_mediaBaseUrl_def split: sum.splits)

lemma sample_sanitizeHtml_tags:
  "set (tag_names (sanitizeHtml sample_collab html cfg)) \<subseteq> set (o_allowedTags cfg)"
  by (simp add: sample_collab_def sample_sanitizeHtml_def)

lemma sample_render_hi:
  "render sample_collab ''hi'' no_options = Inr (''<p>hi</p>'' @ [newline])"
  by code_simp

text \<open>
  The parts of C2 that hold: the tag list of the sanitizer is the default list followed by
  the caller's tags, and the attributes of a tag are the default ones followed by the
  caller's.
\<close>

lemma resolved_tags_union:
  "set (o_allowedTags (sanitize_options C opts))
     = set (defaultAllowedTags C opts) \<union> (case allowedTags opts of None \<Rightarrow> {} | Some ts \<Rightarrow> set ts)"
  by (simp add: sanitize_options_def split: option.splits)

lemma resolved_attributes_union:
  "o_allowedAttributes (sanitize_options C opts) tag
     = (case allowedAttributes opts of
          None \<Rightarrow> defaultAllowedAttributes C opts tag
        | Some customs \<Rightarrow>
            (case customs tag of
               None \<Rightarrow> defaultAllowedAttributes C opts tag
             | Some cs \<Rightarrow>
                 Some ((case defaultAllowedAttributes C opts tag of None \<Rightarrow> [] | Some ds \<Rightarrow> ds) @ cs)))"
  by (simp add: sanitize_options_def merged_lists_def split: option.splits)

text \<open>
  \<open>mergeAttributes\<close> returns the merged lists, or throws: a caller's key that names an
  inherited member and is no key of the defaults makes \<open>render\<close> throw.
\<close>

lemma mergeAttributes_returns:
  "mergeAttributes C defaults customs = Inr attrs \<Longrightarrow> attrs = merged_lists defaults customs"
  by (simp add: mergeAttributes_def split: if_splits)

lemma mergeAttributes_inherited_key:
  "render sample_collab ''hi''
     (no_options\<lparr>allowedAttributes := Some [''constructor'' \<mapsto> [Attr ''x'']]\<rparr>)
   = Inl (Error ''TypeError: merged[tag] is not iterable'')"
  by code_simp

lemma default_classes_div:
  "defaultAllowedClasses C opts ''div''
     = Some (ClassList (map ClassName
         [''highlight'', ''highlight-source-*'', ''notranslate'', ''markdown-alert'',
          ''markdown-alert-*'']))"
  by (simp add: defaultAllowedClasses_def)

text \<open>
  C2 says that the caller's classes extend the default ones. The class table is built by an
  object spread, not by a merge: a tag that the caller names gets the caller's entry alone,
  and its default classes are dropped.
\<close>

theorem caller_classes_replace_defaults:
  assumes "allowedClasses opts = Some customs" and "customs tag = Some entry"
  shows "map_option (\<lambda>classes. classes tag) (o_allowedClasses (sanitize_options C opts))
           = Some (Some entry)"
  using assms by (simp add: sanitize_options_def)

theorem caller_classes_replace_defaults_witness:
  "allowedClasses (no_options\<lparr>allowedClasses := Some [''div'' \<mapsto> ClassList [ClassName ''custom'']]\<rparr>)
     = Some [''div'' \<mapsto> ClassList [ClassName ''custom'']]
   \<and> [''div'' \<mapsto> ClassList [ClassName ''custom'']] ''div'' = Some (ClassList [ClassName ''custom''])
   \<and> defaultAllowedClasses sample_collab
        (no_options\<lparr>allowedClasses := Some [''div'' \<mapsto> ClassList [ClassName ''custom'']]\<rparr>) ''div''
       = Some (ClassList (map ClassName
           [''highlight'', ''highlight-source-*'', ''notranslate'', ''markdown-alert'',
            ''markdown-alert-*'']))
   \<and> map_option (\<lambda>classes. classes ''div'')
        (o_allowedClasses (sanitize_options sample_collab
           (no_options\<lparr>allowedClasses := Some [''div'' \<mapsto> ClassList [ClassName ''custom'']]\<rparr>)))
       = Some (Some (ClassList [ClassName ''custom'']))"
proof -
  have a: "allowedClasses (no_options\<lparr>allowedClasses := Some [''div'' \<mapsto> ClassList [ClassName ''custom'']]\<rparr>)
             = Some [''div'' \<mapsto> ClassList [ClassName ''custom'']]"
    by simp
  have b: "[''div'' \<mapsto> ClassList [ClassName ''custom'']] ''div''
             = Some (ClassList [ClassName ''custom''])"
    by simp
  from caller_classes_replace_defaults [OF a b, of sample_collab] a b default_classes_div
  show ?thesis by blast
qed









text \<open>
  C1, as the code has it. With sanitization on, \<open>render\<close> returns what the sanitizer returns
  for the resolved lists, so whatever the sanitizer guarantees about its result relative to
  its options (\<open>P\<close>: for tags, attributes or classes) holds of the result of \<open>render\<close> relative
  to the resolved lists. For a sanitizer that keeps only tags of its tag list, the tags of
  the result are default tags or tags that the caller allows; \<open>script\<close>, \<open>style\<close> and
  \<open>iframe\<close> (without \<open>allowIframes\<close>) are absent when neither the defaults of the sanitizer
  nor the caller's tags name them.
\<close>

theorem render_within_allow_lists:
  assumes "\<not> truthy (disableHtmlSanitization opts)" and "render C markdown opts = Inr out"
    and "\<And>html cfg. P cfg (sanitizeHtml C html cfg)"
    and "\<And>html cfg. set (tag_names (sanitizeHtml C html cfg)) \<subseteq> set (o_allowedTags cfg)"
  shows "P (sanitize_options C (fill_mediaBaseUrl opts)) out
         \<and> set (tag_names out)
             \<subseteq> set (defaultAllowedTags C opts)
                 \<union> (case allowedTags opts of None \<Rightarrow> {} | Some ts \<Rightarrow> set ts)
         \<and> (\<forall>t \<in> {''script'', ''style'', ''iframe''}.
               t \<notin> set (defaults_allowedTags C)
               \<longrightarrow> t \<notin> (case allowedTags opts of None \<Rightarrow> {} | Some ts \<Rightarrow> set ts)
               \<longrightarrow> (t = ''iframe'' \<longrightarrow> \<not> truthy (allowIframes opts))
               \<longrightarrow> t \<notin> set (tag_names out))"
proof -
  from render_sanitized [OF assms(1,2)] obtain html
    where out: "out = sanitizeHtml C html (sanitize_options C (fill_mediaBaseUrl opts))"
    by blast
  have tags: "set (o_allowedTags (sanitize_options C (fill_mediaBaseUrl opts)))
                = set (defaultAllowedTags C opts)
                  \<union> (case allowedTags opts of None \<Rightarrow> {} | Some ts \<Rightarrow> set ts)"
  proof -
    have "defaultAllowedTags C (fill_mediaBaseUrl opts) = defaultAllowedTags C opts"
      by (simp add: defaultAllowedTags_def fill_mediaBaseUrl_def)
    moreover have "allowedTags (fill_mediaBaseUrl opts) = allowedTags opts"
      by (simp add: fill_mediaBaseUrl_def)
    ultimately show ?thesis
      by (simp add: sanitize_options_def split: option.splits)
  qed
  have sub: "set (tag_names out)
               \<subseteq> set (defaultAllowedTags C opts)
                 \<union> (case allowedTags opts of None \<Rightarrow> {} | Some ts \<Rightarrow> set ts)"
    using assms(4) [of html "sanitize_options C (fill_mediaBaseUrl opts)"] out tags by simp
  have notin: "t \<notin> set (defaultAllowedTags C opts)"
    if "t \<in> {''script'', ''style'', ''iframe''}" "t \<notin> set (defaults_allowedTags C)"
      "t = ''iframe'' \<longrightarrow> \<not> truthy (allowIframes opts)" for t
    using that by (auto simp: defaultAllowedTags_def math_tags_def)
  show ?thesis
    using assms(3) [of "sanitize_options C (fill_mediaBaseUrl opts)" html] out sub notin
    by blast
qed

theorem render_within_allow_lists_witness:
  "\<not> truthy (disableHtmlSanitization (no_options\<lparr>inline := Some True\<rparr>))
   \<and> render sample_collab ''<script>alert(1)</script>'' (no_options\<lparr>inline := Some True\<rparr>) = Inr []
   \<and> ''script'' \<notin> set (defaults_allowedTags sample_collab)
   \<and> ''script'' \<notin> set (tag_names [])"
proof -
  have h: "\<not> truthy (disableHtmlSanitization (no_options\<lparr>inline := Some True\<rparr>))"
    by (simp add: no_options_def truthy_def)
  have r: "render sample_collab ''<script>alert(1)</script>'' (no_options\<lparr>inline := Some True\<rparr>)
             = Inr []"
    by code_simp
  have d: "''script'' \<notin> set (defaults_allowedTags sample_collab)"
    by (simp add: sample_collab_def)
  from render_within_allow_lists
    [OF h r, where P = "\<lambda>cfg html. set (tag_names html) \<subseteq> set (o_allowedTags cfg)",
      OF sample_sanitizeHtml_tags sample_sanitizeHtml_tags]
  have "''script'' \<notin> set (tag_names [])"
    using d by (simp add: no_options_def)
  with h r d show ?thesis by blast
qed

text \<open>
  C1 as stated fails when the caller's \<open>allowedTags\<close> name one of the three tags: \<open>script\<close> is
  then in the resolved list, and a sanitizer that keeps the tags of its list keeps it.
\<close>

theorem caller_allowed_script_survives:
  "\<not> truthy (disableHtmlSanitization
        (no_options\<lparr>inline := Some True, allowedTags := Some [''script'']\<rparr>))
   \<and> \<not> truthy (allowIframes (no_options\<lparr>inline := Some True, allowedTags := Some [''script'']\<rparr>))
   \<and> render sample_collab ''<script>alert(1)</script>''
       (no_options\<lparr>inline := Some True, allowedTags := Some [''script'']\<rparr>)
     = Inr ''<script>alert(1)</script>''
   \<and> ''script'' \<in> set (tag_names ''<script>alert(1)</script>'')"
  by code_simp

section \<open>Properties of the plain-text path\<close>

subsection \<open>The final text of \<open>strip\<close>\<close>

lemma newline_run_after_drop:
  "takeWhile (\<lambda>x. x = newline) (dropWhile (\<lambda>x. x = newline) cs) = []"
  by (metis (mono_tags, lifting) hd_dropWhile takeWhile.simps(1) takeWhile_eq_Nil_iff)

lemma collapse_newlines_lead:
  "length (takeWhile (\<lambda>x. x = newline) (collapse_newlines s)) =
     (if 3 \<le> length (takeWhile (\<lambda>x. x = newline) s) then 1
      else length (takeWhile (\<lambda>x. x = newline) s))"
proof (induction s rule: collapse_newlines.induct)
  case 1
  then show ?case by simp
next
  case (2 c cs)
  show ?case
  proof (cases "c = newline \<and> 2 \<le> length (takeWhile (\<lambda>x. x = newline) cs)")
    case True
    with 2 show ?thesis by (simp add: newline_run_after_drop)
  next
    case False
    with 2 show ?thesis by (auto split: if_splits)
  qed
qed

lemma collapse_newlines_no_run3: "no_run3 (collapse_newlines s)"
proof (induction s rule: collapse_newlines.induct)
  case 1
  then show ?case by simp
next
  case (2 c cs)
  show ?case
  proof (cases "c = newline \<and> 2 \<le> length (takeWhile (\<lambda>x. x = newline) cs)")
    case True
    with 2 show ?thesis by (simp add: collapse_newlines_lead newline_run_after_drop)
  next
    case False
    with 2 show ?thesis by (auto simp: collapse_newlines_lead split: if_splits)
  qed
qed

lemma no_run3_suffix: "no_run3 (xs @ ys) \<Longrightarrow> no_run3 ys"
  by (induction xs) auto

lemma no_run3_no_triple:
  assumes "no_run3 s"
  shows "\<not> (\<exists>xs ys. s = xs @ [newline, newline, newline] @ ys)"
proof
  assume "\<exists>xs ys. s = xs @ [newline, newline, newline] @ ys"
  then obtain xs ys where "s = xs @ [newline, newline, newline] @ ys" by blast
  with assms have "no_run3 ([newline, newline, newline] @ ys)" using no_run3_suffix by blast
  then show False by simp
qed

lemma no_run3_snoc_newline:
  "no_run3 s \<Longrightarrow> s = [] \<or> last s \<noteq> newline \<Longrightarrow> no_run3 (s @ [newline])"
proof (induction s)
  case Nil
  then show ?case by simp
next
  case (Cons c cs)
  show ?case
  proof (cases "cs = []")
    case True
    with Cons.prems show ?thesis by simp
  next
    case False
    with Cons.prems have l: "last cs \<noteq> newline" by simp
    have "takeWhile (\<lambda>x. x = newline) (cs @ [newline]) = takeWhile (\<lambda>x. x = newline) cs"
      using False l by (induction cs) (auto split: if_splits)
    with Cons False l show ?thesis by simp
  qed
qed

lemma collapse_newlines_snoc:
  "c \<noteq> newline \<Longrightarrow> collapse_newlines (s @ [c]) = collapse_newlines s @ [c]"
proof (induction s rule: collapse_newlines.induct)
  case 1
  then show ?case by simp
next
  case (2 d ds)
  have t: "takeWhile (\<lambda>x. x = newline) (ds @ [c]) = takeWhile (\<lambda>x. x = newline) ds"
    using 2(3) by (induction ds) auto
  have dr: "dropWhile (\<lambda>x. x = newline) (ds @ [c]) = dropWhile (\<lambda>x. x = newline) ds @ [c]"
    using 2(3) by (induction ds) auto
  show ?case using 2 t dr by auto
qed

lemma trim_last: "trim s = [] \<or> \<not> isWhiteSpace (last (trim s))"
proof (cases "trim s = []")
  case True
  then show ?thesis by simp
next
  case False
  then have ne: "dropWhile isWhiteSpace (rev (dropWhile isWhiteSpace s)) \<noteq> []"
    by (simp add: trim_def)
  have "last (trim s) = hd (dropWhile isWhiteSpace (rev (dropWhile isWhiteSpace s)))"
    using ne by (simp add: trim_def last_rev)
  with ne show ?thesis using hd_dropWhile by metis
qed

lemma normalize_last: "normalize_field s = [] \<or> last (normalize_field s) \<noteq> newline"
proof (cases "trim s = []")
  case True
  then show ?thesis by (simp add: normalize_field_def)
next
  case False
  then obtain b c where bc: "trim s = b @ [c]" by (metis rev_exhaust)
  with trim_last [of s] have "\<not> isWhiteSpace c" by simp
  then have "c \<noteq> newline" by (auto simp: isWhiteSpace_def)
  then show ?thesis by (simp add: normalize_field_def bc collapse_newlines_snoc)
qed

text \<open>
  C9. \<open>strip\<close> returns the sections, each as header, blank line, content, joined by blank
  lines in order, trimmed, with every run of three or more newlines collapsed to one
  newline, followed by one newline. The result has no run of three newlines, and it ends
  with exactly one newline: what stands before the last newline is empty or ends with
  another code unit.
\<close>

theorem strip_output_shape:
  "strip C markdown opts
     = normalize_field (join [newline, newline]
         (map (\<lambda>section. header section @ [newline, newline] @ content section)
            (stripSplitBySections C markdown opts))) @ [newline]
   \<and> \<not> (\<exists>xs ys. strip C markdown opts = xs @ [newline, newline, newline] @ ys)
   \<and> (\<exists>body. strip C markdown opts = body @ [newline] \<and> (body = [] \<or> last body \<noteq> newline))"
proof -
  let ?t = "join [newline, newline]
         (map (\<lambda>section. header section @ [newline, newline] @ content section)
            (stripSplitBySections C markdown opts))"
  have eq: "strip C markdown opts = normalize_field ?t @ [newline]"
    by (simp add: strip_def normalize_field_def)
  have l: "normalize_field ?t = [] \<or> last (normalize_field ?t) \<noteq> newline"
    by (rule normalize_last)
  have "no_run3 (normalize_field ?t)"
    by (simp add: normalize_field_def collapse_newlines_no_run3)
  then have "no_run3 (normalize_field ?t @ [newline])"
    using l by (rule no_run3_snoc_newline)
  then have "\<not> (\<exists>xs ys. strip C markdown opts = xs @ [newline, newline, newline] @ ys)"
    unfolding eq by (rule no_run3_no_triple)
  with eq l show ?thesis by blast
qed

lemma sample_strip:
  "strip sample_collab
     (''# A'' @ [newline, newline] @ ''text1'' @ [newline, newline] @ ''## B''
        @ [newline, newline] @ ''text2'') no_options
   = ''A'' @ [newline, newline] @ ''text1'' @ [newline, newline] @ ''B''
        @ [newline, newline] @ ''text2'' @ [newline]"
  by code_simp

theorem strip_output_shape_witness:
  "strip sample_collab
     (''# A'' @ [newline, newline] @ ''text1'' @ [newline, newline] @ ''## B''
        @ [newline, newline] @ ''text2'') no_options
   = ''A'' @ [newline, newline] @ ''text1'' @ [newline, newline] @ ''B''
        @ [newline, newline] @ ''text2'' @ [newline]
   \<and> \<not> (\<exists>xs ys. ''A'' @ [newline, newline] @ ''text1'' @ [newline, newline] @ ''B''
        @ [newline, newline] @ ''text2'' @ [newline] = xs @ [newline, newline, newline] @ ys)"
  using strip_output_shape
      [of sample_collab
        "''# A'' @ [newline, newline] @ ''text1'' @ [newline, newline] @ ''## B''
           @ [newline, newline] @ ''text2''" no_options]
  unfolding sample_strip by blast

subsection \<open>Math is removed before the lexer runs\<close>






lemma match_inline_needs_whitespace: "\<not> isWhiteSpace c \<Longrightarrow> match_inline (c # cs) = None"
  by (auto simp: match_inline_def split: list.splits)






















subsection \<open>Sections\<close>

text \<open>
  The parts of C3 that hold for every token list: each heading token, wherever it stands,
  adds one section with the depth of the heading, and the sections that exist keep their
  places and depths. So the depths of the result are those of the sections given, followed
  by those of the headings in the order of the walk.
\<close>

lemma depth_append_field:
  "map depth (append_field hdr index s sections) = map depth sections"
  by (auto simp: append_field_def map_update list_eq_iff_nth_eq nth_list_update)

lemma depth_close_section:
  "map depth (close_section index sections) = map depth sections"
  by (auto simp: close_section_def map_update list_eq_iff_nth_eq nth_list_update)

lemma sections_follow_headings:
  "map depth (stripTokens C toks secs hdr) = map depth secs @ heading_depths toks"
  "map depth (stripLoop C toks hdr index secs) = map depth secs @ heading_depths toks"
  "map depth (stripCells C cells hdr index secs) = map depth secs @ cell_depths cells"
  "map depth (stripRows C rws hdr index secs) = map depth secs @ row_depths rws"
proof (induction C toks secs hdr and C toks hdr index secs and C cells hdr index secs
    and C rws hdr index secs rule: stripTokens_stripLoop_stripCells_stripRows.induct)
  case (1 C toks sections hdr)
  then show ?case by simp
next
  case (2 C hdr index sections)
  then show ?case by simp
next
  case (3 C ty raw tx lang d title tks hcells rws its toks hdr index0 sections0)
  then show ?case
    by (cases ty; cases tks; simp add: Let_def depth_append_field depth_close_section)
next
  case (4 C hdr index sections)
  then show ?case by simp
next
  case (5 C cell cells hdr index sections)
  then show ?case by (simp add: depth_append_field)
next
  case (6 C hdr index sections)
  then show ?case by simp
next
  case (7 C row rws hdr index sections)
  then show ?case by (simp add: depth_append_field)
qed

lemma sections_of_text:
  "map depth (stripSplitBySections C markdown opts)
     = 0 # heading_depths
             (marked_lexer C (strip_math (emojify C markdown))
                ((getOpts opts)\<lparr>m_tokenizer := Some StripTokenizer\<rparr>))"
  by (simp add: stripSplitBySections_def Let_def sections_follow_headings root_section_def)

text \<open>
  The example of C3 holds for the token list that the lexer gives for it: the root section
  and one section for each heading, with the depth of the heading, its text as header and
  the text up to the next heading as content.
\<close>

lemma sample_sections:
  "stripSplitBySections sample_collab
     (''# A'' @ [newline, newline] @ ''text1'' @ [newline, newline] @ ''## B''
        @ [newline, newline] @ ''text2'') no_options
   = [\<lparr>header = [], depth = 0, content = []\<rparr>,
      \<lparr>header = ''A'', depth = 1, content = ''text1''\<rparr>,
      \<lparr>header = ''B'', depth = 2, content = ''text2''\<rparr>]"
  by code_simp

text \<open>
  C3 says that the header and the content of every section are trimmed and have their runs
  of three or more newlines collapsed. \<open>stripTokens\<close> does this to a section when the next
  heading of the same token list starts, and never to the last section: a code block with
  blank lines that ends the text keeps them, where \<open>normalize_field\<close> would leave one newline.
\<close>

theorem last_section_not_normalized:
  "stripTokens C
     [code_token (''```'' @ [newline] @ ''a'' @ [newline, newline, newline, newline] @ ''b''
                    @ [newline] @ ''```'') []
        (''a'' @ [newline, newline, newline, newline] @ ''b'')]
     [root_section] False
   = [\<lparr>header = [], depth = 0,
       content = ''a'' @ [newline, newline, newline, newline] @ ''b''\<rparr>]
   \<and> normalize_field (''a'' @ [newline, newline, newline, newline] @ ''b'') = ''a'' @ [newline] @ ''b''"
  by (simp add: code_token_def root_section_def append_field_def normalize_field_def trim_def
      isWhiteSpace_def)

lemma sample_last_section:
  "stripSplitBySections sample_collab
     (''```'' @ [newline] @ ''a'' @ [newline, newline, newline, newline] @ ''b''
        @ [newline] @ ''```'') no_options
   = [\<lparr>header = [], depth = 0,
       content = ''a'' @ [newline, newline, newline, newline] @ ''b''\<rparr>]"
  by code_simp

text \<open>
  The header of a section gets only the text of tokens that stand in the heading's own token
  list: for the tokens of each of these the flag is computed anew, as false. The text of a
  heading that is all emphasis is therefore content, and the header stays empty.
\<close>

lemma heading_emphasis_goes_to_content:
  "stripTokens C
     [Token Heading ''# **A**'' ''**A**'' None 1 None
        (Some [Token Strong ''**A**'' ''A'' None 0 None (Some [text_token ''A'']) [] [] []])
        [] [] []]
     [root_section] False
   = [\<lparr>header = [], depth = 0, content = []\<rparr>, \<lparr>header = [], depth = 1, content = ''A''\<rparr>]"
  by (simp add: text_token_def root_section_def append_field_def close_section_def
      normalize_field_def trim_def)

end
